theory Spec2Isabelle
  imports Complex_Main "HOL-Library.Word"
begin

section \<open>JavaScript values\<close>

text \<open>
  The controller handles request fields without looking at their type: a field of
  \<^verbatim>\<open>req.body\<close> is whatever the body parser produced. The model keeps the
  primitive values of the language. A number is a rational, \<open>NaN\<close> or an infinity:
  the controller never calculates with a field, it only tests it for truthiness and uses it
  as a key, so the rounding of doubles plays no part (\<open>-0\<close> is the number \<open>0\<close>, which
  is what truthiness and key comparison see). Strings are lists of 8-bit code units.
  Objects and arrays as field values are left out.
\<close>

datatype jsval =
    JUndefined
  | JNull
  | JBool bool
  | JNum rat
  | JNaN
  | JInf bool
  | JStr string

text \<open>\<^verbatim>\<open>ToBoolean\<close>: what \<^verbatim>\<open>if (v)\<close> and \<^verbatim>\<open>!v\<close> test.\<close>

fun truthy :: "jsval \<Rightarrow> bool" where
  "truthy JUndefined = False"
| "truthy JNull = False"
| "truthy (JBool b) = b"
| "truthy (JNum n) = (n \<noteq> 0)"
| "truthy JNaN = False"
| "truthy (JInf _) = True"
| "truthy (JStr s) = (s \<noteq> [])"

section \<open>The \<^verbatim>\<open>Map\<close> of the data store\<close>

text \<open>
  A JavaScript \<^verbatim>\<open>Map\<close> keeps its entries in insertion order and compares keys by
  SameValueZero, which on the values above is equality. It is a list of entries with
  distinct keys: \<^verbatim>\<open>set\<close> on a key that is there replaces the value where it stands,
  on a new key it appends.
\<close>

type_synonym ('k, 'v) js_map = "('k \<times> 'v) list"

definition Map_size :: "('k, 'v) js_map \<Rightarrow> nat" where
  "Map_size m = length m"

fun Map_get :: "('k, 'v) js_map \<Rightarrow> 'k \<Rightarrow> 'v option" where
  "Map_get [] k = None"
| "Map_get ((k', v) # m) k = (if k' = k then Some v else Map_get m k)"

fun Map_set :: "('k, 'v) js_map \<Rightarrow> 'k \<Rightarrow> 'v \<Rightarrow> ('k, 'v) js_map" where
  "Map_set [] k v = [(k, v)]"
| "Map_set ((k', v') # m) k v = (if k' = k then (k, v) # m else (k', v') # Map_set m k v)"

fun Map_delete :: "('k, 'v) js_map \<Rightarrow> 'k \<Rightarrow> ('k, 'v) js_map" where
  "Map_delete [] k = []"
| "Map_delete ((k', v') # m) k = (if k' = k then Map_delete m k else (k', v') # Map_delete m k)"

definition Map_values :: "('k, 'v) js_map \<Rightarrow> 'v list" where
  "Map_values m = map snd m"

definition Map_keys :: "('k, 'v) js_map \<Rightarrow> 'k list" where
  "Map_keys m = map fst m"

section \<open>Products, users, files\<close>

text \<open>
  The object built at lines 64-71 of \<^verbatim>\<open>productController.js\<close>. The four fields taken
  from the body are stored as they came; \<open>id\<close> is a number and \<open>imageUrl\<close> a string.
\<close>

record product =
  id' :: rat
  name :: jsval
  description :: jsval
  price :: jsval
  quantity :: jsval
  imageUrl :: string

text \<open>
  \<^verbatim>\<open>dataStore\<close> is not part of the sources at hand; the controller uses its \<open>users\<close>
  as a \<^verbatim>\<open>Map\<close> from token to an object with an \<open>isAdmin()\<close> method, and its
  \<open>products\<close> as a \<^verbatim>\<open>Map\<close> from key to product. The users are a parameter of the
  model; the products are part of the state.
\<close>

record user =
  isAdmin :: bool

type_synonym byte = "8 word"

text \<open>
  The state the handlers read and write: the \<open>products\<close> map and the files of the
  working directory (a path with no entry is a file that cannot be read).
\<close>

record state =
  products :: "(jsval, product) js_map"
  files :: "string \<rightharpoonup> byte list"

section \<open>Requests, responses and the environment\<close>

text \<open>
  The file object multer puts at \<^verbatim>\<open>req.file\<close>: the name under which the upload was
  stored, and the uploaded bytes.
\<close>

record upload =
  filename :: string
  content :: "byte list"

text \<open>
  The parts of the Express request the handlers read: \<^verbatim>\<open>req.headers.authorization\<close>,
  \<^verbatim>\<open>req.params.id\<close>, \<^verbatim>\<open>req.body\<close> (a property that is not there reads as
  \<open>undefined\<close>) and \<^verbatim>\<open>req.file\<close>.
\<close>

record request =
  authorization :: "string option"
  params_id :: string
  body :: "string \<Rightarrow> jsval"
  file' :: "upload option"

text \<open>
  The answer of the identity endpoint to \<^verbatim>\<open>fetch\<close>: its status, and the \<open>token\<close>
  property of its JSON body (\<open>None\<close> when \<^verbatim>\<open>json()\<close> rejects or the body has no
  properties to read).
\<close>

record whoami_response =
  whoami_status :: nat
  whoami_token :: "jsval option"

text \<open>
  The environment: the \<open>users\<close> map of the data store, and the identity endpoint as a
  function of the forwarded header (\<open>None\<close> when \<^verbatim>\<open>fetch\<close> itself rejects).
\<close>

record env =
  users :: "jsval \<rightharpoonup> user"
  whoami :: "string option \<Rightarrow> whoami_response option"

text \<open>
  The texts the handlers send, in the order of the source: the 401 text, the three 403
  texts (add, delete, update), the 400 text of \<open>addProduct\<close>, the 400 text for a product
  id, the 404 text, the confirmation of a deletion, and the 500 text.
\<close>

datatype message =
    InvalidToken
  | NoPermissionAdd
  | NoPermissionDelete
  | NoPermissionUpdate
  | AllFieldsRequired
  | InvalidProductId
  | ProductNotFound
  | ProductDeleted
  | InternalError

text \<open>
  What \<^verbatim>\<open>res.send\<close> is given: a text, a product, a product spread into a new object
  with an \<open>image\<close> property, or the array of those.
\<close>

datatype payload =
    Message message
  | Product product
  | ProductWithImage product string
  | ProductArray "(product \<times> string) list"

record response =
  status :: nat
  payload :: payload

definition respond :: "nat \<Rightarrow> payload \<Rightarrow> response" where
  "respond st p = \<lparr>status = st, payload = p\<rparr>"

text \<open>The exceptions that can be thrown inside the handlers.\<close>

datatype js_error =
    FetchError
  | JsonError
  | TypeError
  | ENOENT string

section \<open>The admin gate\<close>

text \<open>
  Lines 29-49, 124-144 and 225-245 are the same code but for the 403 text: the call of the
  identity endpoint, the test of its status, the lookup of the user and the call of
  \<open>isAdmin()\<close> on what the lookup gave. A thrown exception is \<open>Inl\<close>; the enclosing
  \<^verbatim>\<open>try\<close> turns it into a 500.
\<close>

datatype gate = Unauthenticated | Forbidden | Admin

definition admin_gate :: "env \<Rightarrow> request \<Rightarrow> js_error + gate" where
  "admin_gate e req =
     (case whoami e (authorization req) of
        None \<Rightarrow> Inl FetchError
      | Some whoamiResponse \<Rightarrow>
          if whoami_status whoamiResponse \<noteq> 200 then Inr Unauthenticated
          else (case whoami_token whoamiResponse of
                  None \<Rightarrow> Inl JsonError
                | Some token \<Rightarrow>
                    (case users e token of
                       None \<Rightarrow> Inl TypeError
                     | Some user \<Rightarrow> if \<not> isAdmin user then Inr Forbidden else Inr Admin)))"

section \<open>\<^verbatim>\<open>addProduct\<close>\<close>

definition uploads_path :: "string \<Rightarrow> string" where
  "uploads_path fname = ''src/uploads/'' @ fname"

definition addProduct :: "env \<Rightarrow> state \<Rightarrow> request \<Rightarrow> response \<times> state" where
  "addProduct e s req =
     (case admin_gate e req of
        Inl err \<Rightarrow> (respond 500 (Message InternalError), s)
      | Inr Unauthenticated \<Rightarrow> (respond 401 (Message InvalidToken), s)
      | Inr Forbidden \<Rightarrow> (respond 403 (Message NoPermissionAdd), s)
      | Inr Admin \<Rightarrow>
          let image' = file' req in
          if \<not> truthy (body req ''name'') \<or> \<not> truthy (body req ''description'')
             \<or> \<not> truthy (body req ''price'') \<or> \<not> truthy (body req ''quantity'')
             \<or> image' = None
          then (respond 400 (Message AllFieldsRequired), s)
          else
            let newProductId = of_nat (Map_size (products s)) + 1;
                newProduct = \<lparr>id' = newProductId,
                              name = body req ''name'',
                              description = body req ''description'',
                              price = body req ''price'',
                              quantity = body req ''quantity'',
                              imageUrl = uploads_path (filename (the image'))\<rparr>
            in (respond 201 (Product newProduct),
                s\<lparr>products := Map_set (products s) (JNum newProductId) newProduct\<rparr>))"

section \<open>\<^verbatim>\<open>deleteProduct\<close>\<close>

definition deleteProduct :: "env \<Rightarrow> state \<Rightarrow> request \<Rightarrow> response \<times> state" where
  "deleteProduct e s req =
     (case admin_gate e req of
        Inl err \<Rightarrow> (respond 500 (Message InternalError), s)
      | Inr Unauthenticated \<Rightarrow> (respond 401 (Message InvalidToken), s)
      | Inr Forbidden \<Rightarrow> (respond 403 (Message NoPermissionDelete), s)
      | Inr Admin \<Rightarrow>
          let productId = body req ''productId'' in
          if \<not> truthy productId then (respond 400 (Message InvalidProductId), s)
          else (case Map_get (products s) productId of
                  None \<Rightarrow> (respond 404 (Message ProductNotFound), s)
                | Some product \<Rightarrow>
                    (respond 200 (Message ProductDeleted),
                     s\<lparr>products := Map_delete (products s) productId\<rparr>)))"

section \<open>Strings to numbers\<close>

text \<open>
  White space as \<^verbatim>\<open>parseInt\<close> and \<^verbatim>\<open>Number\<close> strip it: tab, line feed, vertical
  tab, form feed, carriage return, space and the no-break space (the white space and line
  terminators among the 8-bit code units).
\<close>

definition is_whitespace :: "char \<Rightarrow> bool" where
  "is_whitespace c \<longleftrightarrow>
     c = CHR 0x09 \<or> c = CHR 0x0A \<or> c = CHR 0x0B \<or> c = CHR 0x0C \<or> c = CHR 0x0D
     \<or> c = CHR 0x20 \<or> c = CHR 0xA0"

text \<open>The value of a digit or letter as a digit of some radix up to 36.\<close>

definition digit_value :: "char \<Rightarrow> nat option" where
  "digit_value c =
     (let n = (of_char c :: nat) in
      if 48 \<le> n \<and> n \<le> 57 then Some (n - 48)
      else if 97 \<le> n \<and> n \<le> 122 then Some (n - 87)
      else if 65 \<le> n \<and> n \<le> 90 then Some (n - 55)
      else None)"

definition is_digit :: "nat \<Rightarrow> char \<Rightarrow> bool" where
  "is_digit radix c = (case digit_value c of None \<Rightarrow> False | Some d \<Rightarrow> d < radix)"

definition digits_value :: "nat \<Rightarrow> string \<Rightarrow> nat" where
  "digits_value radix ds = foldl (\<lambda>acc c. acc * radix + (case digit_value c of None \<Rightarrow> 0 | Some d \<Rightarrow> d)) 0 ds"

text \<open>
  \<^verbatim>\<open>parseInt(string)\<close> with no radix: leading white space is dropped, then a sign, then
  a \<^verbatim>\<open>0x\<close> or \<^verbatim>\<open>0X\<close> prefix (which makes the radix 16); the longest run of digits
  from there is the number, whatever follows it, and \<open>NaN\<close> is the result when that run
  is empty. The digits are read exactly; the language rounds a run beyond 53 bits to the
  nearest double, which is no key of a store whose keys are sizes.
\<close>

definition parseInt :: "string \<Rightarrow> jsval" where
  "parseInt inputString =
     (let S = dropWhile is_whitespace inputString;
          negative = (S \<noteq> [] \<and> hd S = CHR ''-'');
          S1 = (if S \<noteq> [] \<and> (hd S = CHR ''+'' \<or> hd S = CHR ''-'') then tl S else S);
          hex = (case S1 of c0 # c1 # _ \<Rightarrow> c0 = CHR ''0'' \<and> (c1 = CHR ''x'' \<or> c1 = CHR ''X'')
                   | _ \<Rightarrow> False);
          R = (if hex then 16 else 10);
          S2 = (if hex then drop 2 S1 else S1);
          Z = takeWhile (is_digit R) S2
      in if Z = [] then JNaN
         else JNum ((if negative then - 1 else 1) * of_nat (digits_value R Z)))"

text \<open>
  \<^verbatim>\<open>Number(value)\<close>. On a string: white space is trimmed at both ends; the empty string
  is \<open>0\<close>; then either a \<^verbatim>\<open>0x\<close>, \<^verbatim>\<open>0o\<close> or \<^verbatim>\<open>0b\<close> literal without sign, or a
  signed decimal literal (\<^verbatim>\<open>Infinity\<close>, or digits with an optional fraction and an
  optional exponent); anything else is \<open>NaN\<close>.
\<close>

definition trim :: "string \<Rightarrow> string" where
  "trim s = rev (dropWhile is_whitespace (rev (dropWhile is_whitespace s)))"

definition all_digits :: "nat \<Rightarrow> string \<Rightarrow> bool" where
  "all_digits radix ds \<longleftrightarrow> ds \<noteq> [] \<and> list_all (is_digit radix) ds"

definition SignedInteger :: "string \<Rightarrow> int option" where
  "SignedInteger s =
     (case s of
        [] \<Rightarrow> None
      | c # t \<Rightarrow>
          if c = CHR ''-'' then (if all_digits 10 t then Some (- int (digits_value 10 t)) else None)
          else if c = CHR ''+'' then (if all_digits 10 t then Some (int (digits_value 10 t)) else None)
          else if all_digits 10 s then Some (int (digits_value 10 s)) else None)"

definition scale10 :: "rat \<Rightarrow> int \<Rightarrow> rat" where
  "scale10 m x = (if 0 \<le> x then m * 10 ^ nat x else m / 10 ^ nat (- x))"

definition StrUnsignedDecimalLiteral :: "string \<Rightarrow> rat option" where
  "StrUnsignedDecimalLiteral s =
     (let ip = takeWhile (is_digit 10) s;
          r1 = dropWhile (is_digit 10) s;
          dot = (r1 \<noteq> [] \<and> hd r1 = CHR ''.'');
          fp = (if dot then takeWhile (is_digit 10) (tl r1) else []);
          r2 = (if dot then dropWhile (is_digit 10) (tl r1) else r1);
          mantissa = (of_nat (digits_value 10 (ip @ fp)) :: rat) / 10 ^ length fp
      in if ip = [] \<and> fp = [] then None
         else (case r2 of
                 [] \<Rightarrow> Some mantissa
               | c # t \<Rightarrow>
                   if c = CHR ''e'' \<or> c = CHR ''E''
                   then map_option (scale10 mantissa) (SignedInteger t)
                   else None))"

definition StrDecimalLiteral :: "string \<Rightarrow> jsval" where
  "StrDecimalLiteral s =
     (let negative = (s \<noteq> [] \<and> hd s = CHR ''-'');
          u = (if s \<noteq> [] \<and> (hd s = CHR ''+'' \<or> hd s = CHR ''-'') then tl s else s)
      in if u = ''Infinity'' then JInf (\<not> negative)
         else (case StrUnsignedDecimalLiteral u of
                 None \<Rightarrow> JNaN
               | Some m \<Rightarrow> JNum (if negative then - m else m)))"

definition StringToNumber :: "string \<Rightarrow> jsval" where
  "StringToNumber str =
     (let s = trim str in
      if s = [] then JNum 0
      else (case s of
              c0 # c1 # t \<Rightarrow>
                if c0 = CHR ''0'' \<and> (c1 = CHR ''x'' \<or> c1 = CHR ''X'')
                then (if all_digits 16 t then JNum (of_nat (digits_value 16 t)) else JNaN)
                else if c0 = CHR ''0'' \<and> (c1 = CHR ''o'' \<or> c1 = CHR ''O'')
                then (if all_digits 8 t then JNum (of_nat (digits_value 8 t)) else JNaN)
                else if c0 = CHR ''0'' \<and> (c1 = CHR ''b'' \<or> c1 = CHR ''B'')
                then (if all_digits 2 t then JNum (of_nat (digits_value 2 t)) else JNaN)
                else StrDecimalLiteral s
            | _ \<Rightarrow> StrDecimalLiteral s))"

fun Number :: "jsval \<Rightarrow> jsval" where
  "Number JUndefined = JNaN"
| "Number JNull = JNum 0"
| "Number (JBool b) = JNum (if b then 1 else 0)"
| "Number (JNum n) = JNum n"
| "Number JNaN = JNaN"
| "Number (JInf b) = JInf b"
| "Number (JStr s) = StringToNumber s"

section \<open>Base64\<close>

text \<open>
  \<^verbatim>\<open>buffer.toString('base64')\<close>: three bytes give four characters of the standard
  alphabet, and a last group of one or two bytes is padded with \<^verbatim>\<open>=\<close>.
\<close>

definition base64_alphabet :: string where
  "base64_alphabet = ''ABCDEFGHIJKLMNOPQRSTUVWXYZabcdefghijklmnopqrstuvwxyz0123456789+/''"

definition base64_char :: "nat \<Rightarrow> char" where
  "base64_char i = base64_alphabet ! i"

text \<open>The four 6-bit groups of three bytes; a byte that is not there counts as \<open>0\<close>.\<close>

definition sextet1 :: "byte \<Rightarrow> nat" where
  "sextet1 a = unat a div 4"

definition sextet2 :: "byte \<Rightarrow> byte \<Rightarrow> nat" where
  "sextet2 a b = unat a mod 4 * 16 + unat b div 16"

definition sextet3 :: "byte \<Rightarrow> byte \<Rightarrow> nat" where
  "sextet3 b c = unat b mod 16 * 4 + unat c div 64"

definition sextet4 :: "byte \<Rightarrow> nat" where
  "sextet4 c = unat c mod 64"

fun base64 :: "byte list \<Rightarrow> string" where
  "base64 [] = []"
| "base64 [a] =
     [base64_char (sextet1 a), base64_char (sextet2 a 0), CHR ''='', CHR ''='']"
| "base64 [a, b] =
     [base64_char (sextet1 a), base64_char (sextet2 a b), base64_char (sextet3 b 0), CHR ''='']"
| "base64 (a # b # c # rest) =
     [base64_char (sextet1 a), base64_char (sextet2 a b),
      base64_char (sextet3 b c), base64_char (sextet4 c)] @ base64 rest"

text \<open>
  The decoding a client of the API does with the \<open>image\<close> property: groups of four
  characters back to three bytes, the padded last group to one or two. \<open>None\<close> on
  a text that is not Base64.
\<close>

fun index_of :: "'a \<Rightarrow> 'a list \<Rightarrow> nat option" where
  "index_of x [] = None"
| "index_of x (y # ys) = (if x = y then Some 0 else map_option Suc (index_of x ys))"

definition base64_index :: "char \<Rightarrow> nat option" where
  "base64_index c = index_of c base64_alphabet"

definition octet1 :: "nat \<Rightarrow> nat \<Rightarrow> byte" where
  "octet1 i j = of_nat (i * 4 + j div 16)"

definition octet2 :: "nat \<Rightarrow> nat \<Rightarrow> byte" where
  "octet2 j k = of_nat (j mod 16 * 16 + k div 4)"

definition octet3 :: "nat \<Rightarrow> nat \<Rightarrow> byte" where
  "octet3 k l = of_nat (k mod 4 * 64 + l)"

fun base64_decode :: "string \<Rightarrow> byte list option" where
  "base64_decode [] = Some []"
| "base64_decode (c1 # c2 # c3 # c4 # rest) =
     (if rest = [] \<and> c3 = CHR ''='' \<and> c4 = CHR ''='' then
        (case (base64_index c1, base64_index c2) of
           (Some i, Some j) \<Rightarrow> Some [octet1 i j]
         | _ \<Rightarrow> None)
      else if rest = [] \<and> c4 = CHR ''='' then
        (case (base64_index c1, base64_index c2, base64_index c3) of
           (Some i, Some j, Some k) \<Rightarrow> Some [octet1 i j, octet2 j k]
         | _ \<Rightarrow> None)
      else
        (case (base64_index c1, base64_index c2, base64_index c3, base64_index c4) of
           (Some i, Some j, Some k, Some l) \<Rightarrow>
             map_option (\<lambda>bytes. octet1 i j # octet2 j k # octet3 k l # bytes)
               (base64_decode rest)
         | _ \<Rightarrow> None))"
| "base64_decode _ = None"

section \<open>\<^verbatim>\<open>getProducts\<close> and \<^verbatim>\<open>getProductById\<close>\<close>

text \<open>
  Neither handler has a \<^verbatim>\<open>try\<close>: an exception of \<^verbatim>\<open>fs.readFileSync\<close> leaves the
  handler, and no \<^verbatim>\<open>res.send\<close> is reached. \<open>Inl\<close> is that outcome.
\<close>

definition readFileSync :: "(string \<rightharpoonup> byte list) \<Rightarrow> string \<Rightarrow> js_error + byte list" where
  "readFileSync fs path = (case fs path of None \<Rightarrow> Inl (ENOENT path) | Some bytes \<Rightarrow> Inr bytes)"

text \<open>
  The callback of \<^verbatim>\<open>Array.prototype.map\<close> at lines 96-107, run on the products in the
  order of the map; the first exception ends the loop. The copy of the product has no
  \<open>imageLink\<close> property to delete.
\<close>

fun with_images :: "(string \<rightharpoonup> byte list) \<Rightarrow> product list \<Rightarrow> js_error + (product \<times> string) list" where
  "with_images fs [] = Inr []"
| "with_images fs (product # rest) =
     (case readFileSync fs (imageUrl product) of
        Inl err \<Rightarrow> Inl err
      | Inr imageBuffer \<Rightarrow>
          (case with_images fs rest of
             Inl err \<Rightarrow> Inl err
           | Inr productsArray \<Rightarrow> Inr ((product, base64 imageBuffer) # productsArray)))"

definition getProducts :: "state \<Rightarrow> request \<Rightarrow> js_error + response" where
  "getProducts s req =
     (case with_images (files s) (Map_values (products s)) of
        Inl err \<Rightarrow> Inl err
      | Inr productsArray \<Rightarrow> Inr (respond 200 (ProductArray productsArray)))"

definition getProductById :: "state \<Rightarrow> request \<Rightarrow> js_error + response" where
  "getProductById s req =
     (let productId = parseInt (params_id req) in
      if productId = JNaN then Inr (respond 400 (Message InvalidProductId))
      else (case Map_get (products s) productId of
              None \<Rightarrow> Inr (respond 404 (Message ProductNotFound))
            | Some product \<Rightarrow>
                (case readFileSync (files s) (imageUrl product) of
                   Inl err \<Rightarrow> Inl err
                 | Inr imageBuffer \<Rightarrow>
                     Inr (respond 200 (ProductWithImage product (base64 imageBuffer))))))"

section \<open>\<^verbatim>\<open>updateProduct\<close>\<close>

text \<open>
  The product found in the map is changed in place, field by field, so what was assigned
  before \<^verbatim>\<open>fs.unlinkSync\<close> throws stays assigned when the \<^verbatim>\<open>catch\<close> answers 500.
\<close>

definition updateProduct :: "env \<Rightarrow> state \<Rightarrow> request \<Rightarrow> response \<times> state" where
  "updateProduct e s req =
     (case admin_gate e req of
        Inl err \<Rightarrow> (respond 500 (Message InternalError), s)
      | Inr Unauthenticated \<Rightarrow> (respond 401 (Message InvalidToken), s)
      | Inr Forbidden \<Rightarrow> (respond 403 (Message NoPermissionUpdate), s)
      | Inr Admin \<Rightarrow>
          let productId = Number (body req ''productId'') in
          (case Map_get (products s) productId of
             None \<Rightarrow> (respond 404 (Message ProductNotFound), s)
           | Some product \<Rightarrow>
               let p1 = (if truthy (body req ''name'')
                         then product\<lparr>name := body req ''name''\<rparr> else product);
                   p2 = (if truthy (body req ''description'')
                         then p1\<lparr>description := body req ''description''\<rparr> else p1);
                   p3 = (if truthy (body req ''price'')
                         then p2\<lparr>price := body req ''price''\<rparr> else p2);
                   p4 = (if truthy (body req ''quantity'')
                         then p3\<lparr>quantity := body req ''quantity''\<rparr> else p3)
               in (case file' req of
                     None \<Rightarrow>
                       (respond 200 (Product p4),
                        s\<lparr>products := Map_set (products s) productId p4\<rparr>)
                   | Some f \<Rightarrow>
                       (case files s (imageUrl p4) of
                          None \<Rightarrow>
                            (respond 500 (Message InternalError),
                             s\<lparr>products := Map_set (products s) productId p4\<rparr>)
                        | Some old \<Rightarrow>
                            let p5 = p4\<lparr>imageUrl := uploads_path (filename f)\<rparr>
                            in (respond 200 (Product p5),
                                s\<lparr>products := Map_set (products s) productId p5,
                                  files := (files s)(imageUrl p4 := None)\<rparr>)))))"

section \<open>The routes\<close>

text \<open>
  Modelled from the spec: the write path of Image Storage. The routes file is not part of
  the sources at hand; lines 6-16 configure the disk storage it uses, which writes an
  uploaded file under \<^verbatim>\<open>src/uploads/\<close> before the handler runs and puts the stored
  name at \<^verbatim>\<open>req.file.filename\<close>.
\<close>

definition upload_single :: "state \<Rightarrow> request \<Rightarrow> state" where
  "upload_single s req =
     (case file' req of
        None \<Rightarrow> s
      | Some f \<Rightarrow> s\<lparr>files := (files s)(uploads_path (filename f) \<mapsto> content f)\<rparr>)"

datatype route = POST_products | GET_products | GET_products_id | PUT_products | DELETE_products

fun handle :: "env \<Rightarrow> state \<Rightarrow> route \<times> request \<Rightarrow> (js_error + response) \<times> state" where
  "handle e s (POST_products, req) =
     (let (res, s') = addProduct e (upload_single s req) req in (Inr res, s'))"
| "handle e s (GET_products, req) = (getProducts s req, s)"
| "handle e s (GET_products_id, req) = (getProductById s req, s)"
| "handle e s (PUT_products, req) =
     (let (res, s') = updateProduct e (upload_single s req) req in (Inr res, s'))"
| "handle e s (DELETE_products, req) =
     (let (res, s') = deleteProduct e s req in (Inr res, s'))"

text \<open>A sequence of requests, one after the other; the state after the last.\<close>

fun run :: "env \<Rightarrow> state \<Rightarrow> (route \<times> request) list \<Rightarrow> state" where
  "run e s [] = s"
| "run e s (r # rs) = run e (snd (handle e s r)) rs"

section \<open>A scenario\<close>

text \<open>
  An identity endpoint that knows an admin, a plain user and a token with no user behind it;
  an empty store; the requests of an admin.
\<close>

definition example_env :: env where
  "example_env =
     \<lparr>users = [JStr ''admin-token'' \<mapsto> \<lparr>isAdmin = True\<rparr>,
               JStr ''user-token'' \<mapsto> \<lparr>isAdmin = False\<rparr>],
      whoami = (\<lambda>h.
        if h = Some ''Bearer admin''
        then Some \<lparr>whoami_status = 200, whoami_token = Some (JStr ''admin-token'')\<rparr>
        else if h = Some ''Bearer user''
        then Some \<lparr>whoami_status = 200, whoami_token = Some (JStr ''user-token'')\<rparr>
        else if h = Some ''Bearer stale''
        then Some \<lparr>whoami_status = 200, whoami_token = Some (JStr ''stale-token'')\<rparr>
        else Some \<lparr>whoami_status = 401, whoami_token = None\<rparr>)\<rparr>"

definition empty_state :: state where
  "empty_state = \<lparr>products = [], files = Map.empty\<rparr>"

definition admin_request :: request where
  "admin_request =
     \<lparr>authorization = Some ''Bearer admin'', params_id = [], body = (\<lambda>k. JUndefined),
      file' = None\<rparr>"

definition product_request :: "string \<Rightarrow> string \<Rightarrow> byte list \<Rightarrow> request" where
  "product_request n fname bytes =
     admin_request
       \<lparr>body := (\<lambda>k. JUndefined)
          (''name'' := JStr n, ''description'' := JStr ''A widget'',
           ''price'' := JNum 10, ''quantity'' := JNum 5),
        file' := Some \<lparr>filename = fname, content = bytes\<rparr>\<rparr>"

definition widget_request :: request where
  "widget_request = product_request ''Widget'' ''1700000000000.png'' [0x89, 0x50, 0x4E, 0x47]"

definition delete_request :: "jsval \<Rightarrow> request" where
  "delete_request productId = admin_request\<lparr>body := (\<lambda>k. JUndefined)(''productId'' := productId)\<rparr>"

definition collision_requests :: "(route \<times> request) list" where
  "collision_requests =
     [(POST_products, widget_request),
      (POST_products, product_request ''Gadget'' ''1700000000001.png'' [1, 2, 3]),
      (DELETE_products, delete_request (JNum 1))]"

definition request_as :: "string \<Rightarrow> request \<Rightarrow> request" where
  "request_as credentials req = req\<lparr>authorization := Some credentials\<rparr>"

definition widget :: product where
  "widget = \<lparr>id' = 1, name = JStr ''Widget'', description = JStr ''A widget'',
     price = JNum 10, quantity = JNum 5, imageUrl = ''src/uploads/1700000000000.png''\<rparr>"

definition widget_state :: state where
  "widget_state = run example_env empty_state [(POST_products, widget_request)]"

definition update_request :: "(string \<Rightarrow> jsval) \<Rightarrow> request" where
  "update_request b = admin_request\<lparr>body := b\<rparr>"

section \<open>Notions used in the statements\<close>

text \<open>Every key of the store is the identifier of its product, a positive number.\<close>

definition keyed_by_id :: "(jsval, product) js_map \<Rightarrow> bool" where
  "keyed_by_id m = list_all (\<lambda>(k, p). k = JNum (id' p) \<and> 0 < id' p) m"

text \<open>
  Following the words of the spec: a valid integer is a non-empty run of decimal digits,
  which a sign may precede.
\<close>

definition valid_integer :: "string \<Rightarrow> bool" where
  "valid_integer str =
     (case str of
        [] \<Rightarrow> False
      | c # t \<Rightarrow> if c = CHR ''-'' \<or> c = CHR ''+'' then all_digits 10 t else all_digits 10 str)"

text \<open>
  The decimal digits of a natural number, as a client writes an identifier into the path
  \<^verbatim>\<open>/products/:id\<close>.
\<close>

fun decimal :: "nat \<Rightarrow> string" where
  "decimal n =
     (if n < 10 then [char_of (48 + n)] else decimal (n div 10) @ [char_of (48 + n mod 10)])"

section \<open>Properties of the map\<close>

lemma Map_get_set_same: "Map_get (Map_set m k v) k = Some v"
  by (induction m) auto

lemma Map_get_set_other: "k' \<noteq> k \<Longrightarrow> Map_get (Map_set m k v) k' = Map_get m k'"
  by (induction m) auto

lemma Map_get_delete_same: "Map_get (Map_delete m k) k = None"
  by (induction m) auto

lemma Map_get_delete_other: "k' \<noteq> k \<Longrightarrow> Map_get (Map_delete m k) k' = Map_get m k'"
  by (induction m) auto

lemma Map_keys_simps: "Map_keys [] = []" "Map_keys ((k', v') # m) = k' # Map_keys m"
  by (simp_all add: Map_keys_def)

lemma Map_get_None_iff: "Map_get m k = None \<longleftrightarrow> k \<notin> set (Map_keys m)"
  by (induction m) (auto simp: Map_keys_simps split: if_splits)

lemma Map_keys_set: "Map_keys (Map_set m k v) = (if k \<in> set (Map_keys m) then Map_keys m else Map_keys m @ [k])"
  by (induction m) (auto simp: Map_keys_simps)

lemma Map_keys_delete: "Map_keys (Map_delete m k) = removeAll k (Map_keys m)"
  by (induction m) (auto simp: Map_keys_simps)

lemma distinct_Map_set: "distinct (Map_keys m) \<Longrightarrow> distinct (Map_keys (Map_set m k v))"
  by (simp add: Map_keys_set)

lemma distinct_Map_delete: "distinct (Map_keys m) \<Longrightarrow> distinct (Map_keys (Map_delete m k))"
  by (simp add: Map_keys_delete distinct_removeAll)

lemma Map_size_keys: "Map_size m = length (Map_keys m)"
  by (simp add: Map_size_def Map_keys_def)

lemma Map_size_card: "distinct (Map_keys m) \<Longrightarrow> Map_size m = card (set (Map_keys m))"
  by (simp add: Map_size_keys distinct_card)

lemma Map_size_delete:
  "distinct (Map_keys m) \<Longrightarrow> k \<in> set (Map_keys m) \<Longrightarrow> Map_size (Map_delete m k) = Map_size m - 1"
  using distinct_Map_delete[of m k] by (simp add: Map_size_card Map_keys_delete)

section \<open>Base64 round trip\<close>

lemma index_of_nth: "distinct xs \<Longrightarrow> i < length xs \<Longrightarrow> index_of (xs ! i) xs = Some i"
proof (induction xs arbitrary: i)
  case Nil
  then show ?case by simp
next
  case (Cons x xs)
  show ?case
  proof (cases i)
    case 0
    then show ?thesis by simp
  next
    case (Suc j)
    with Cons.prems have "xs ! j \<in> set xs" by simp
    with Cons.prems have "xs ! j \<noteq> x" by auto
    with Cons Suc show ?thesis by simp
  qed
qed

lemma length_base64_alphabet: "length base64_alphabet = 64"
  by (simp add: base64_alphabet_def)

lemma distinct_base64_alphabet: "distinct base64_alphabet"
  by (simp add: base64_alphabet_def)

lemma pad_not_in_alphabet: "CHR ''='' \<notin> set base64_alphabet"
  by (simp add: base64_alphabet_def)

lemma base64_index_char: "i < 64 \<Longrightarrow> base64_index (base64_char i) = Some i"
  by (simp add: base64_index_def base64_char_def index_of_nth distinct_base64_alphabet length_base64_alphabet)

lemma base64_char_not_pad: "i < 64 \<Longrightarrow> base64_char i \<noteq> CHR ''=''"
  using pad_not_in_alphabet nth_mem[of i base64_alphabet]
  unfolding base64_char_def length_base64_alphabet by metis

lemma sextet_join1: "(x::nat) div 4 * 4 + (x mod 4 * 16 + y div 16) div 16 = x" if "y < 256"
proof -
  have "y div 16 < 16" using that by simp
  then have "(x mod 4 * 16 + y div 16) div 16 = x mod 4" by simp
  then show ?thesis by simp
qed

lemma sextet_join2: "((x::nat) mod 4 * 16 + y div 16) mod 16 * 16 + (y mod 16 * 4 + z div 64) div 4 = y" if "y < 256" "z < 256"
proof -
  have "y div 16 < 16" using that by simp
  then have 1: "(x mod 4 * 16 + y div 16) mod 16 = y div 16" by simp
  have "z div 64 < 4" using that by simp
  then have 2: "(y mod 16 * 4 + z div 64) div 4 = y mod 16" by simp
  show ?thesis unfolding 1 2 by simp
qed

lemma sextet_join3: "((y::nat) mod 16 * 4 + z div 64) mod 4 * 64 + z mod 64 = z" if "z < 256"
proof -
  have "z div 64 < 4" using that by simp
  then have 1: "(y mod 16 * 4 + z div 64) mod 4 = z div 64" by simp
  show ?thesis unfolding 1 by simp
qed

lemma sextet1_lt: "(x::nat) < 256 \<Longrightarrow> x div 4 < 64" by simp
lemma sextet2_lt: "(y::nat) < 256 \<Longrightarrow> x mod 4 * 16 + y div 16 < 64"
proof -
  assume "y < 256"
  then have "y div 16 < 16" by simp
  moreover have "x mod 4 < 4" by simp
  ultimately show ?thesis by linarith
qed
lemma sextet3_lt: "(z::nat) < 256 \<Longrightarrow> y mod 16 * 4 + z div 64 < 64"
proof -
  assume "z < 256"
  then have "z div 64 < 4" by simp
  moreover have "y mod 16 < 16" by simp
  ultimately show ?thesis by linarith
qed


lemma unat_byte_lt: "unat (a :: byte) < 256"
  using unsigned_less[of a] by simp

lemma sextets_lt:
  "sextet1 a < 64" "sextet2 a b < 64" "sextet3 b c < 64" "sextet4 c < 64"
  using sextet1_lt[OF unat_byte_lt[of a]] sextet2_lt[OF unat_byte_lt[of b], of "unat a"]
    sextet3_lt[OF unat_byte_lt[of c], of "unat b"]
  by (simp_all add: sextet1_def sextet2_def sextet3_def sextet4_def)

lemma octet1_sextets: "octet1 (sextet1 a) (sextet2 a b) = a"
  unfolding octet1_def sextet1_def sextet2_def
  by (simp only: sextet_join1[OF unat_byte_lt]) simp

lemma octet2_sextets: "octet2 (sextet2 a b) (sextet3 b c) = b"
  unfolding octet2_def sextet2_def sextet3_def
  by (simp only: sextet_join2[OF unat_byte_lt unat_byte_lt]) simp

lemma octet3_sextets: "octet3 (sextet3 b c) (sextet4 c) = c"
  unfolding octet3_def sextet3_def sextet4_def
  by (simp only: sextet_join3[OF unat_byte_lt]) simp

lemma base64_decode_encode: "base64_decode (base64 bs) = Some bs"
proof (induction bs rule: base64.induct)
  case 1
  then show ?case by simp
next
  case (2 a)
  show ?case
    by (simp add: base64_index_char sextets_lt octet1_sextets)
next
  case (3 a b)
  show ?case
    by (simp add: base64_index_char base64_char_not_pad sextets_lt octet1_sextets octet2_sextets)
next
  case (4 a b c rest)
  show ?case
    by (simp add: base64_index_char base64_char_not_pad sextets_lt
        octet1_sextets octet2_sextets octet3_sextets "4.IH")
qed

lemma base64_empty_iff: "base64 bs = [] \<longleftrightarrow> bs = []"
  by (induction bs rule: base64.induct) simp_all


section \<open>The requests of the scenario\<close>

lemmas scenario_defs = example_env_def empty_state_def admin_request_def product_request_def
  widget_request_def delete_request_def collision_requests_def

lemmas handler_defs = addProduct_def deleteProduct_def updateProduct_def admin_gate_def respond_def
  upload_single_def uploads_path_def Map_size_def

lemma product_request_admin: "admin_gate example_env (product_request n f b) = Inr Admin"
  by (simp add: admin_gate_def example_env_def admin_request_def product_request_def)

lemma product_request_fields:
  "file' (product_request n f b) = Some \<lparr>filename = f, content = b\<rparr>"
  "body (product_request n f b) ''name'' = JStr n"
  "body (product_request n f b) ''description'' = JStr ''A widget''"
  "body (product_request n f b) ''price'' = JNum 10"
  "body (product_request n f b) ''quantity'' = JNum 5"
  by (simp_all add: product_request_def admin_request_def)

lemma delete_request_fields: "body (delete_request k) ''productId'' = k"
  by (simp add: delete_request_def admin_request_def)

lemma delete_request_admin: "admin_gate example_env (delete_request k) = Inr Admin"
  by (simp add: admin_gate_def example_env_def admin_request_def delete_request_def)

section \<open>Identifiers of new products\<close>

text \<open>
  C1. An \<open>addProduct\<close> call that answers 201 gives the new product the identifier
  \<open>products.size + 1\<close>, and stores it under that key. Hence identifiers can repeat:
  after two additions and the deletion of product 1, the store holds product 2 alone,
  and the next addition is given the identifier 2 again.
\<close>

theorem addProduct_id_is_size_plus_one:
  "(status (fst (addProduct e s req)) = 201 \<longrightarrow>
      (\<exists>p. fst (addProduct e s req) = respond 201 (Product p)
          \<and> id' p = of_nat (Map_size (products s)) + 1
          \<and> Map_get (products (snd (addProduct e s req))) (JNum (id' p)) = Some p))
   \<and> (\<exists>rs req old new.
         DELETE_products \<in> fst ` set rs
         \<and> old \<in> set (Map_values (products (run example_env empty_state rs)))
         \<and> fst (handle example_env (run example_env empty_state rs) (POST_products, req))
             = Inr (respond 201 (Product new))
         \<and> id' new = id' old)"
proof
  show "status (fst (addProduct e s req)) = 201 \<longrightarrow>
      (\<exists>p. fst (addProduct e s req) = respond 201 (Product p)
          \<and> id' p = of_nat (Map_size (products s)) + 1
          \<and> Map_get (products (snd (addProduct e s req))) (JNum (id' p)) = Some p)"
    by (auto simp: addProduct_def respond_def Let_def Map_get_set_same
        split: sum.splits gate.splits option.splits)
next
  let ?rs = collision_requests
  let ?req = "product_request ''Gizmo'' ''1700000000002.png'' [4, 5, 6]"
  let ?old = "\<lparr>id' = 2, name = JStr ''Gadget'', description = JStr ''A widget'',
      price = JNum 10, quantity = JNum 5, imageUrl = ''src/uploads/1700000000001.png''\<rparr>"
  let ?new = "\<lparr>id' = 2, name = JStr ''Gizmo'', description = JStr ''A widget'',
      price = JNum 10, quantity = JNum 5, imageUrl = ''src/uploads/1700000000002.png''\<rparr>"
  have ps: "products (run example_env empty_state ?rs) = [(JNum 2, ?old)]"
    by (simp add: scenario_defs handler_defs Let_def split_def)
  have 1: "DELETE_products \<in> fst ` set ?rs"
    by (simp add: collision_requests_def)
  have 2: "?old \<in> set (Map_values (products (run example_env empty_state ?rs)))"
    by (simp add: ps Map_values_def)
  have 3: "fst (handle example_env (run example_env empty_state ?rs) (POST_products, ?req))
      = Inr (respond 201 (Product ?new))"
    by (simp add: addProduct_def product_request_admin respond_def upload_single_def
        uploads_path_def Map_size_def ps product_request_fields split_def Let_def)
  have 4: "id' ?new = id' ?old" by simp
  from 1 2 3 4 show "\<exists>rs req old new.
         DELETE_products \<in> fst ` set rs
         \<and> old \<in> set (Map_values (products (run example_env empty_state rs)))
         \<and> fst (handle example_env (run example_env empty_state rs) (POST_products, req))
             = Inr (respond 201 (Product new))
         \<and> id' new = id' old"
    by blast
qed


theorem addProduct_id_is_size_plus_one_witness:
  "status (fst (addProduct example_env empty_state widget_request)) = 201
   \<and> (\<exists>p. fst (addProduct example_env empty_state widget_request) = respond 201 (Product p)
          \<and> id' p = 1
          \<and> Map_get (products (snd (addProduct example_env empty_state widget_request)))
               (JNum (id' p)) = Some p)"
proof -
  have "status (fst (addProduct example_env empty_state widget_request)) = 201"
    by (simp add: addProduct_def product_request_admin product_request_fields widget_request_def
        respond_def Let_def)
  with addProduct_id_is_size_plus_one[of example_env empty_state widget_request]
  show ?thesis
    by (simp add: empty_state_def Map_size_def)
qed

lemma admin_gate_Admin_iff:
  "admin_gate e req = Inr Admin \<longleftrightarrow>
     (\<exists>w t u. whoami e (authorization req) = Some w \<and> whoami_status w = 200
        \<and> whoami_token w = Some t \<and> users e t = Some u \<and> isAdmin u)"
  by (auto simp: admin_gate_def split: option.splits)

lemma gate_of_user:
  "admin_gate example_env (request_as ''Bearer user'' req) = Inr Forbidden"
  "admin_gate example_env (request_as ''Bearer stale'' req) = Inl TypeError"
  "admin_gate example_env (request_as ''Bearer nobody'' req) = Inr Unauthenticated"
  "admin_gate example_env (request_as ''Bearer admin'' req) = Inr Admin"
  by (simp_all add: admin_gate_def example_env_def request_as_def)

section \<open>The admin gate of \<open>addProduct\<close>\<close>

text \<open>
  C2. When the identity endpoint answers with a status other than 200, \<open>addProduct\<close>
  answers 401; when it answers 200 and the token's user is not an admin, \<open>addProduct\<close>
  answers 403. In both cases the state is the one before the call, and the products are
  unchanged by the whole route (which has stored the upload by then).
\<close>

theorem addProduct_rejects_non_admin:
  "(whoami e (authorization req) = Some w \<and> whoami_status w \<noteq> 200 \<longrightarrow>
      addProduct e s req = (respond 401 (Message InvalidToken), s)
      \<and> products (snd (handle e s (POST_products, req))) = products s)
   \<and> (whoami e (authorization req) = Some w \<and> whoami_status w = 200
        \<and> whoami_token w = Some t \<and> users e t = Some u \<and> \<not> isAdmin u \<longrightarrow>
      addProduct e s req = (respond 403 (Message NoPermissionAdd), s)
      \<and> products (snd (handle e s (POST_products, req))) = products s)"
  by (auto simp: addProduct_def admin_gate_def upload_single_def split_def split: option.splits)

theorem addProduct_rejects_non_admin_witness:
  "addProduct example_env empty_state (request_as ''Bearer nobody'' widget_request)
     = (respond 401 (Message InvalidToken), empty_state)
   \<and> addProduct example_env empty_state (request_as ''Bearer user'' widget_request)
     = (respond 403 (Message NoPermissionAdd), empty_state)
   \<and> products (snd (handle example_env empty_state
        (POST_products, request_as ''Bearer user'' widget_request))) = []"
proof -
  have a: "whoami example_env (authorization (request_as ''Bearer nobody'' widget_request))
      = Some \<lparr>whoami_status = 401, whoami_token = None\<rparr>"
    by (simp add: example_env_def request_as_def)
  have b: "whoami example_env (authorization (request_as ''Bearer user'' widget_request))
      = Some \<lparr>whoami_status = 200, whoami_token = Some (JStr ''user-token'')\<rparr>"
    by (simp add: example_env_def request_as_def)
  have c: "users example_env (JStr ''user-token'') = Some \<lparr>isAdmin = False\<rparr>"
    by (simp add: example_env_def)
  from addProduct_rejects_non_admin[of example_env "request_as ''Bearer nobody'' widget_request"
      "\<lparr>whoami_status = 401, whoami_token = None\<rparr>" empty_state] a
    addProduct_rejects_non_admin[of example_env "request_as ''Bearer user'' widget_request"
      "\<lparr>whoami_status = 200, whoami_token = Some (JStr ''user-token'')\<rparr>" empty_state
      "JStr ''user-token''" "\<lparr>isAdmin = False\<rparr>"] b c
  show ?thesis by (simp add: empty_state_def)
qed

section \<open>A token without a user\<close>

text \<open>
  C9. When the identity endpoint answers 200 with a token that the \<open>users\<close> map does
  not hold, the lookup gives \<open>undefined\<close>, the call of \<open>isAdmin\<close> on it throws, and each
  of \<open>addProduct\<close>, \<open>updateProduct\<close> and \<open>deleteProduct\<close> answers 500 and leaves the
  state as it was.
\<close>

theorem unknown_user_is_internal_error:
  assumes "whoami e (authorization req) = Some w" and "whoami_status w = 200"
    and "whoami_token w = Some t" and "users e t = None"
  shows "addProduct e s req = (respond 500 (Message InternalError), s)
    \<and> updateProduct e s req = (respond 500 (Message InternalError), s)
    \<and> deleteProduct e s req = (respond 500 (Message InternalError), s)"
  using assms by (simp add: addProduct_def updateProduct_def deleteProduct_def admin_gate_def)

theorem unknown_user_is_internal_error_witness:
  "addProduct example_env empty_state (request_as ''Bearer stale'' widget_request)
     = (respond 500 (Message InternalError), empty_state)
   \<and> updateProduct example_env empty_state (request_as ''Bearer stale'' widget_request)
     = (respond 500 (Message InternalError), empty_state)
   \<and> deleteProduct example_env empty_state (request_as ''Bearer stale'' widget_request)
     = (respond 500 (Message InternalError), empty_state)"
proof -
  have a: "whoami example_env (authorization (request_as ''Bearer stale'' widget_request))
      = Some \<lparr>whoami_status = 200, whoami_token = Some (JStr ''stale-token'')\<rparr>"
    by (simp add: example_env_def request_as_def)
  have b: "users example_env (JStr ''stale-token'') = None"
    by (simp add: example_env_def)
  show ?thesis
    using unknown_user_is_internal_error[OF a _ _ b] by simp
qed

section \<open>Falsy fields in \<open>addProduct\<close>\<close>

text \<open>
  C10. When an admin calls \<open>addProduct\<close> and one of name, description, price and
  quantity is falsy (\<open>0\<close>, the empty string, \<open>null\<close>, or not there at all), the answer
  is 400 and the state is unchanged. \<open>updateProduct\<close>, on a product that exists and with
  no file, answers 200 whatever the fields are.
\<close>

theorem addProduct_rejects_falsy_field:
  assumes "admin_gate e req = Inr Admin"
    and "\<not> truthy (body req ''name'') \<or> \<not> truthy (body req ''description'')
         \<or> \<not> truthy (body req ''price'') \<or> \<not> truthy (body req ''quantity'')"
  shows "addProduct e s req = (respond 400 (Message AllFieldsRequired), s)
    \<and> (\<forall>p. Map_get (products s) (Number (body req ''productId'')) = Some p \<and> file' req = None
          \<longrightarrow> status (fst (updateProduct e s req)) = 200)"
  using assms by (auto simp: addProduct_def updateProduct_def respond_def Let_def split: option.splits)

lemma update_request_admin: "admin_gate example_env (update_request b) = Inr Admin"
  by (simp add: admin_gate_def example_env_def admin_request_def update_request_def)

lemma update_request_fields:
  "body (update_request b) = b" "file' (update_request b) = None"
  by (simp_all add: update_request_def admin_request_def)

lemma widget_state_products: "products widget_state = [(JNum 1, widget)]"
  by (simp add: widget_state_def widget_def scenario_defs handler_defs Let_def split_def)

lemma widget_state_files:
  "files widget_state = [''src/uploads/1700000000000.png'' \<mapsto> [0x89, 0x50, 0x4E, 0x47]]"
  by (simp add: widget_state_def scenario_defs handler_defs Let_def split_def)

theorem addProduct_rejects_falsy_field_witness:
  "addProduct example_env widget_state
      ((product_request ''Free'' ''1700000000003.png'' [7])
         \<lparr>body := (body (product_request ''Free'' ''1700000000003.png'' [7]))(''price'' := JNum 0)\<rparr>)
     = (respond 400 (Message AllFieldsRequired), widget_state)
   \<and> status (fst (updateProduct example_env widget_state
        (update_request ((\<lambda>k. JUndefined)(''productId'' := JNum 1, ''quantity'' := JNum 0))))) = 200"
proof -
  let ?add = "(product_request ''Free'' ''1700000000003.png'' [7])
         \<lparr>body := (body (product_request ''Free'' ''1700000000003.png'' [7]))(''price'' := JNum 0)\<rparr>"
  let ?upd = "update_request ((\<lambda>k. JUndefined)(''productId'' := JNum 1, ''quantity'' := JNum 0))"
  have a: "admin_gate example_env ?add = Inr Admin"
    by (simp add: admin_gate_def example_env_def admin_request_def product_request_def)
  have f: "\<not> truthy (body ?add ''name'') \<or> \<not> truthy (body ?add ''description'')
         \<or> \<not> truthy (body ?add ''price'') \<or> \<not> truthy (body ?add ''quantity'')"
    by simp
  have u: "\<not> truthy (body ?upd ''name'') \<or> \<not> truthy (body ?upd ''description'')
         \<or> \<not> truthy (body ?upd ''price'') \<or> \<not> truthy (body ?upd ''quantity'')"
    by (simp add: update_request_fields)
  have g: "Map_get (products widget_state) (Number (body ?upd ''productId'')) = Some widget"
    by (simp add: widget_state_products update_request_fields)
  from addProduct_rejects_falsy_field[OF a f, of widget_state]
    addProduct_rejects_falsy_field[OF update_request_admin u, of widget_state] g
  show ?thesis
    by (simp add: update_request_fields)
qed

section \<open>Keys and identifiers\<close>

lemma keyed_by_id_Nil: "keyed_by_id []"
  by (simp add: keyed_by_id_def)

lemma keyed_by_id_set:
  "keyed_by_id m \<Longrightarrow> 0 < id' p \<Longrightarrow> keyed_by_id (Map_set m (JNum (id' p)) p)"
  by (induction m) (auto simp: keyed_by_id_def)

lemma keyed_by_id_delete: "keyed_by_id m \<Longrightarrow> keyed_by_id (Map_delete m k)"
  by (induction m) (auto simp: keyed_by_id_def)

lemma keyed_by_id_get:
  "keyed_by_id m \<Longrightarrow> Map_get m k = Some p \<Longrightarrow> k = JNum (id' p) \<and> 0 < id' p"
  by (induction m) (auto simp: keyed_by_id_def split: if_splits)

lemma keyed_by_id_addProduct: "keyed_by_id (products s) \<Longrightarrow> keyed_by_id (products (snd (addProduct e s req)))"
proof -
  assume inv: "keyed_by_id (products s)"
  have pos: "(0::rat) < of_nat (Map_size (products s)) + 1"
    by (simp add: add_pos_nonneg)
  let ?p = "\<lambda>f. \<lparr>id' = of_nat (Map_size (products s)) + 1, name = body req ''name'',
     description = body req ''description'', price = body req ''price'',
     quantity = body req ''quantity'', imageUrl = uploads_path (filename f)\<rparr>"
  have "keyed_by_id (Map_set (products s) (JNum (id' (?p f))) (?p f))" for f
    using keyed_by_id_set[OF inv, of "?p f"] pos by simp
  then show ?thesis
    using inv by (auto simp: addProduct_def Let_def split: sum.splits gate.splits option.splits)
qed

lemma keyed_by_id_deleteProduct: "keyed_by_id (products s) \<Longrightarrow> keyed_by_id (products (snd (deleteProduct e s req)))"
  by (auto simp: deleteProduct_def Let_def keyed_by_id_delete split: sum.splits gate.splits option.splits)

lemma keyed_by_id_updateProduct:
  assumes "keyed_by_id (products s)"
  shows "keyed_by_id (products (snd (updateProduct e s req)))"
proof -
  have *: "keyed_by_id (Map_set (products s) k p')"
    if "Map_get (products s) k = Some p" "id' p' = id' p" for k p p'
  proof -
    from keyed_by_id_get[OF assms that(1)] have "k = JNum (id' p')" "0 < id' p'"
      using that(2) by simp_all
    then show ?thesis using keyed_by_id_set[OF assms, of p'] by simp
  qed
  show ?thesis
    using assms
    by (auto simp: updateProduct_def Let_def intro!: * split: sum.splits gate.splits option.splits)
qed

lemma keyed_by_id_handle: "keyed_by_id (products s) \<Longrightarrow> keyed_by_id (products (snd (handle e s r)))"
proof -
  assume inv: "keyed_by_id (products s)"
  obtain rt req where r: "r = (rt, req)" by (cases r)
  have u: "keyed_by_id (products (upload_single s req))"
    using inv by (simp add: upload_single_def split: option.splits)
  show ?thesis
    using inv keyed_by_id_addProduct[OF u, of e req] keyed_by_id_updateProduct[OF u, of e req]
      keyed_by_id_deleteProduct[OF inv, of e req]
    by (cases rt) (simp_all add: r split_def Let_def)
qed

lemma keyed_by_id_run: "keyed_by_id (products s) \<Longrightarrow> keyed_by_id (products (run e s rs))"
  by (induction rs arbitrary: s) (simp_all add: keyed_by_id_handle)

lemma keyed_by_id_reachable: "keyed_by_id (products (run e empty_state rs))"
  by (rule keyed_by_id_run) (simp add: empty_state_def keyed_by_id_Nil)

text \<open>
  The keys of a store built by the routes are distinct, so the length of the list is the
  number of keys, which is what \<^verbatim>\<open>products.size\<close> counts.
\<close>

lemma handle_products:
  "products (snd (handle e s r)) = products s
   \<or> (\<exists>k v. products (snd (handle e s r)) = Map_set (products s) k v)
   \<or> (\<exists>k. products (snd (handle e s r)) = Map_delete (products s) k)"
proof -
  obtain rt req where r: "r = (rt, req)" by (cases r)
  have u: "products (upload_single s req) = products s"
    by (simp add: upload_single_def split: option.splits)
  show ?thesis
  proof (cases rt)
    case POST_products
    then show ?thesis
      using u by (auto simp: r split_def Let_def addProduct_def split: sum.splits gate.splits)
  next
    case GET_products
    then show ?thesis by (simp add: r)
  next
    case GET_products_id
    then show ?thesis by (simp add: r)
  next
    case PUT_products
    then show ?thesis
      using u
      by (auto simp: r split_def Let_def updateProduct_def
          split: sum.splits gate.splits option.splits)
  next
    case DELETE_products
    then show ?thesis
      by (auto simp: r split_def Let_def deleteProduct_def
          split: sum.splits gate.splits option.splits)
  qed
qed

lemma distinct_keys_handle:
  "distinct (Map_keys (products s)) \<Longrightarrow> distinct (Map_keys (products (snd (handle e s r))))"
  using handle_products[of e s r] by (auto simp: distinct_Map_set distinct_Map_delete)

lemma distinct_keys_run:
  "distinct (Map_keys (products s)) \<Longrightarrow> distinct (Map_keys (products (run e s rs)))"
  by (induction rs arbitrary: s) (simp_all add: distinct_keys_handle)

lemma size_is_number_of_keys:
  "Map_size (products (run e empty_state rs)) = card (set (Map_keys (products (run e empty_state rs))))"
  by (rule Map_size_card, rule distinct_keys_run) (simp add: empty_state_def Map_keys_def)

section \<open>Deleting a product that is not there\<close>

text \<open>
  The guard of line 150 comes before the lookup: the product id \<open>0\<close> resolves to no
  product, and the answer is 400, not 404.
\<close>

theorem deleteProduct_zero_id_counterexample:
  "admin_gate example_env (delete_request (JNum 0)) = Inr Admin
   \<and> Map_get (products widget_state) (body (delete_request (JNum 0)) ''productId'') = None
   \<and> deleteProduct example_env widget_state (delete_request (JNum 0))
       = (respond 400 (Message InvalidProductId), widget_state)
   \<and> status (fst (deleteProduct example_env widget_state (delete_request (JNum 0)))) \<noteq> 404"
  by (simp add: delete_request_admin delete_request_fields widget_state_products
      deleteProduct_def respond_def)

text \<open>
  C6, as amended. When an admin calls \<open>deleteProduct\<close> with a truthy product id that
  is no key of the store, the answer is 404 and the state is unchanged; with a falsy
  product id the answer is 400 and the state is unchanged as well.
\<close>

theorem deleteProduct_unknown_id:
  assumes "admin_gate e req = Inr Admin"
  shows "(truthy (body req ''productId'') \<and> Map_get (products s) (body req ''productId'') = None
           \<longrightarrow> deleteProduct e s req = (respond 404 (Message ProductNotFound), s))
    \<and> (\<not> truthy (body req ''productId'')
           \<longrightarrow> deleteProduct e s req = (respond 400 (Message InvalidProductId), s))"
  using assms by (simp add: deleteProduct_def)

theorem deleteProduct_unknown_id_witness:
  "deleteProduct example_env widget_state (delete_request (JNum 9999))
     = (respond 404 (Message ProductNotFound), widget_state)
   \<and> deleteProduct example_env widget_state (delete_request (JStr ''1''))
     = (respond 404 (Message ProductNotFound), widget_state)
   \<and> deleteProduct example_env widget_state (delete_request (JStr []))
     = (respond 400 (Message InvalidProductId), widget_state)"
  using deleteProduct_unknown_id[OF delete_request_admin, of "JNum 9999" widget_state]
    deleteProduct_unknown_id[OF delete_request_admin, of "JStr ''1''" widget_state]
    deleteProduct_unknown_id[OF delete_request_admin, of "JStr []" widget_state]
  by (simp add: delete_request_fields widget_state_products)

section \<open>Deleting a product\<close>

lemma getProductById_absent:
  "parseInt (params_id r) = JNum n \<Longrightarrow> Map_get (products s) (JNum n) = None
    \<Longrightarrow> getProductById s r = Inr (respond 404 (Message ProductNotFound))"
  by (simp add: getProductById_def)

text \<open>
  C7. In a store whose keys are the identifiers of its products, when an admin calls
  \<open>deleteProduct\<close> with the key of a product, the answer is 200 and the entry is removed:
  the key has no product afterwards, \<open>getProductById\<close> on an id that parses to it answers
  404, the other entries are as before, and no file is touched, the image of the deleted
  product included.
\<close>

theorem deleteProduct_removes:
  assumes "admin_gate e req = Inr Admin"
    and "keyed_by_id (products s)"
    and "Map_get (products s) (body req ''productId'') = Some p"
  shows "deleteProduct e s req =
           (respond 200 (Message ProductDeleted),
            s\<lparr>products := Map_delete (products s) (body req ''productId'')\<rparr>)
    \<and> Map_get (products (snd (deleteProduct e s req))) (body req ''productId'') = None
    \<and> (\<forall>r. parseInt (params_id r) = body req ''productId'' \<longrightarrow>
          getProductById (snd (deleteProduct e s req)) r
            = Inr (respond 404 (Message ProductNotFound)))
    \<and> (\<forall>k. k \<noteq> body req ''productId'' \<longrightarrow>
          Map_get (products (snd (deleteProduct e s req))) k = Map_get (products s) k)
    \<and> files (snd (deleteProduct e s req)) = files s
    \<and> files (snd (deleteProduct e s req)) (imageUrl p) = files s (imageUrl p)"
proof -
  from keyed_by_id_get[OF assms(2,3)]
  have key: "body req ''productId'' = JNum (id' p)" and pos: "0 < id' p" by simp_all
  have t: "truthy (body req ''productId'')" using key pos by simp
  have d: "deleteProduct e s req =
           (respond 200 (Message ProductDeleted),
            s\<lparr>products := Map_delete (products s) (body req ''productId'')\<rparr>)"
    using assms(1,3) t by (simp add: deleteProduct_def)
  show ?thesis
    unfolding d
    by (simp add: Map_get_delete_same Map_get_delete_other getProductById_def key)
qed

theorem deleteProduct_removes_witness:
  "deleteProduct example_env widget_state (delete_request (JNum 1))
     = (respond 200 (Message ProductDeleted), widget_state\<lparr>products := []\<rparr>)
   \<and> getProductById (snd (deleteProduct example_env widget_state (delete_request (JNum 1))))
        (admin_request\<lparr>params_id := ''1''\<rparr>)
     = Inr (respond 404 (Message ProductNotFound))
   \<and> files (snd (deleteProduct example_env widget_state (delete_request (JNum 1))))
        ''src/uploads/1700000000000.png'' = Some [0x89, 0x50, 0x4E, 0x47]"
proof -
  have inv: "keyed_by_id (products widget_state)"
    unfolding widget_state_def by (rule keyed_by_id_reachable)
  have g: "Map_get (products widget_state) (body (delete_request (JNum 1)) ''productId'') = Some widget"
    by (simp add: delete_request_fields widget_state_products)
  have p: "parseInt (params_id (admin_request\<lparr>params_id := ''1''\<rparr>))
     = body (delete_request (JNum 1)) ''productId''"
    by (simp add: delete_request_fields parseInt_def is_whitespace_def is_digit_def
        digit_value_def digits_value_def)
  note removed = deleteProduct_removes[OF delete_request_admin inv g]
  have 1: "deleteProduct example_env widget_state (delete_request (JNum 1))
     = (respond 200 (Message ProductDeleted), widget_state\<lparr>products := []\<rparr>)"
    using removed by (simp add: delete_request_fields widget_state_products)
  have 2: "getProductById (snd (deleteProduct example_env widget_state (delete_request (JNum 1))))
        (admin_request\<lparr>params_id := ''1''\<rparr>)
     = Inr (respond 404 (Message ProductNotFound))"
    using removed p by blast
  have 3: "files (snd (deleteProduct example_env widget_state (delete_request (JNum 1))))
        ''src/uploads/1700000000000.png'' = Some [0x89, 0x50, 0x4E, 0x47]"
    using removed by (simp add: widget_state_files)
  from 1 2 3 show ?thesis by blast
qed

section \<open>Partial updates\<close>

text \<open>
  C4. When an admin calls \<open>updateProduct\<close> on a product that exists, each of name,
  description, price and quantity takes the value of the request when that value is
  truthy, and keeps its own when it is falsy (a quantity of \<open>0\<close> is skipped). The
  identifier stays; with no file in the request the image path and the files stay too
  and the answer is 200 with the product. So a request with a truthy price and nothing
  else changes the price alone. The other entries of the store are untouched.
\<close>

theorem updateProduct_overwrites_truthy_fields:
  assumes "admin_gate e req = Inr Admin"
    and "Map_get (products s) (Number (body req ''productId'')) = Some p"
  shows "\<exists>p'. Map_get (products (snd (updateProduct e s req))) (Number (body req ''productId''))
            = Some p'
     \<and> name p' = (if truthy (body req ''name'') then body req ''name'' else name p)
     \<and> description p' =
          (if truthy (body req ''description'') then body req ''description'' else description p)
     \<and> price p' = (if truthy (body req ''price'') then body req ''price'' else price p)
     \<and> quantity p' =
          (if truthy (body req ''quantity'') then body req ''quantity'' else quantity p)
     \<and> id' p' = id' p
     \<and> (file' req = None \<longrightarrow>
           imageUrl p' = imageUrl p
           \<and> fst (updateProduct e s req) = respond 200 (Product p')
           \<and> files (snd (updateProduct e s req)) = files s)
     \<and> (file' req = None \<and> \<not> truthy (body req ''name'')
          \<and> \<not> truthy (body req ''description'') \<and> \<not> truthy (body req ''quantity'')
          \<and> truthy (body req ''price'') \<longrightarrow> p' = p\<lparr>price := body req ''price''\<rparr>)
     \<and> (\<forall>k. k \<noteq> Number (body req ''productId'') \<longrightarrow>
           Map_get (products (snd (updateProduct e s req))) k = Map_get (products s) k)"
  using assms
  by (auto simp: updateProduct_def Let_def Map_get_set_same Map_get_set_other split: option.splits)

theorem updateProduct_overwrites_truthy_fields_witness:
  "updateProduct example_env widget_state
      (update_request ((\<lambda>k. JUndefined)(''productId'' := JNum 1, ''price'' := JNum 12)))
     = (respond 200 (Product (widget\<lparr>price := JNum 12\<rparr>)),
        widget_state\<lparr>products := [(JNum 1, widget\<lparr>price := JNum 12\<rparr>)]\<rparr>)
   \<and> Map_get (products (snd (updateProduct example_env widget_state
        (update_request ((\<lambda>k. JUndefined)(''productId'' := JNum 1, ''quantity'' := JNum 0))))))
        (JNum 1) = Some widget"
proof -
  let ?price = "update_request ((\<lambda>k. JUndefined)(''productId'' := JNum 1, ''price'' := JNum 12))"
  let ?zero = "update_request ((\<lambda>k. JUndefined)(''productId'' := JNum 1, ''quantity'' := JNum 0))"
  have g: "Map_get (products widget_state) (Number (body ?price ''productId'')) = Some widget"
    "Map_get (products widget_state) (Number (body ?zero ''productId'')) = Some widget"
    by (simp_all add: widget_state_products update_request_fields)
  from updateProduct_overwrites_truthy_fields[OF update_request_admin g(1)]
  obtain p' where p': "p' = widget\<lparr>price := JNum 12\<rparr>"
    "Map_get (products (snd (updateProduct example_env widget_state ?price))) (JNum 1) = Some p'"
    "fst (updateProduct example_env widget_state ?price) = respond 200 (Product p')"
    by (auto simp: update_request_fields)
  have s: "snd (updateProduct example_env widget_state ?price)
      = widget_state\<lparr>products := [(JNum 1, widget\<lparr>price := JNum 12\<rparr>)]\<rparr>"
    by (simp add: updateProduct_def update_request_admin update_request_fields
        widget_state_products Let_def)
  from updateProduct_overwrites_truthy_fields[OF update_request_admin g(2)]
  obtain q where q: "Map_get (products (snd (updateProduct example_env widget_state ?zero))) (JNum 1) = Some q"
    "name q = name widget" "description q = description widget" "price q = price widget"
    "quantity q = quantity widget" "id' q = id' widget" "imageUrl q = imageUrl widget"
    by (auto simp: update_request_fields)
  have "q = widget" using q(2-) by simp
  with q(1) p' s show ?thesis
    by (simp add: prod_eq_iff)
qed

section \<open>Listing the products\<close>

lemma with_images_readable:
  "list_all (\<lambda>p. fs (imageUrl p) \<noteq> None) ps \<Longrightarrow>
     with_images fs ps = Inr (map (\<lambda>p. (p, base64 (the (fs (imageUrl p))))) ps)"
  by (induction ps) (auto simp: readFileSync_def)

lemma with_images_unreadable:
  "\<not> list_all (\<lambda>p. fs (imageUrl p) \<noteq> None) ps \<Longrightarrow> \<exists>path. with_images fs ps = Inl (ENOENT path)"
  by (induction ps) (auto simp: readFileSync_def split: option.splits sum.splits)

text \<open>
  C8. \<open>getProducts\<close> does not look at the identity endpoint, the users or the request:
  the answer is the same for any of them, and the state is not changed. When the image
  file of every product can be read, the answer is 200 with the products in the order of
  the store, each with the Base64 text of its image file. When the image file of some product
  cannot be read, the read throws, no answer is sent, and no part of the list is returned.
\<close>

theorem getProducts_all_or_nothing:
  "handle e s (GET_products, req) = handle e' s (GET_products, req')
   \<and> snd (handle e s (GET_products, req)) = s
   \<and> (list_all (\<lambda>p. files s (imageUrl p) \<noteq> None) (Map_values (products s)) \<longrightarrow>
        getProducts s req =
          Inr (respond 200 (ProductArray
            (map (\<lambda>p. (p, base64 (the (files s (imageUrl p))))) (Map_values (products s))))))
   \<and> (\<not> list_all (\<lambda>p. files s (imageUrl p) \<noteq> None) (Map_values (products s)) \<longrightarrow>
        (\<exists>path. getProducts s req = Inl (ENOENT path)))"
  using with_images_readable[of "files s" "Map_values (products s)"]
    with_images_unreadable[of "files s" "Map_values (products s)"]
  by (auto simp: getProducts_def)

theorem getProducts_all_or_nothing_witness:
  "getProducts widget_state (request_as ''Bearer nobody'' admin_request)
     = Inr (respond 200 (ProductArray [(widget, ''iVBORw=='')]))
   \<and> (\<exists>path. getProducts (widget_state\<lparr>files := Map.empty\<rparr>) admin_request = Inl (ENOENT path))"
proof -
  have a: "list_all (\<lambda>p. files widget_state (imageUrl p) \<noteq> None) (Map_values (products widget_state))"
    by (simp add: widget_state_products widget_state_files Map_values_def widget_def)
  have b: "\<not> list_all (\<lambda>p. files (widget_state\<lparr>files := Map.empty\<rparr>) (imageUrl p) \<noteq> None)
      (Map_values (products (widget_state\<lparr>files := Map.empty\<rparr>)))"
    by (simp add: widget_state_products Map_values_def)
  from getProducts_all_or_nothing[of example_env widget_state "request_as ''Bearer nobody'' admin_request"] a
    getProducts_all_or_nothing[of example_env "widget_state\<lparr>files := Map.empty\<rparr>" admin_request] b
  show ?thesis
    by (simp add: widget_state_products widget_state_files Map_values_def widget_def
        sextet1_def sextet2_def sextet3_def sextet4_def base64_char_def base64_alphabet_def)
qed

section \<open>Fetching one product\<close>

lemma is_digit_10_range: "is_digit 10 c \<Longrightarrow> 48 \<le> (of_char c :: nat) \<and> (of_char c :: nat) \<le> 57"
  by (auto simp: is_digit_def digit_value_def Let_def split: if_splits)

lemma is_digit_10_plain:
  assumes "is_digit 10 c"
  shows "\<not> is_whitespace c" "c \<noteq> CHR ''-''" "c \<noteq> CHR ''+''" "c \<noteq> CHR ''x''" "c \<noteq> CHR ''X''"
  using is_digit_10_range[OF assms] by (auto simp: is_whitespace_def)

lemma takeWhile_all_digits: "all_digits r ds \<Longrightarrow> takeWhile (is_digit r) ds = ds"
  by (simp add: all_digits_def list_all_iff)

lemma all_digits_no_hex_prefix:
  "all_digits 10 ds \<Longrightarrow>
     (case ds of c0 # c1 # _ \<Rightarrow> c0 = CHR ''0'' \<and> (c1 = CHR ''x'' \<or> c1 = CHR ''X'') | _ \<Rightarrow> False) = False"
  by (auto simp: all_digits_def dest: is_digit_10_plain split: list.splits)

lemma parseInt_digits:
  assumes "all_digits 10 ds"
  shows "parseInt ds = JNum (of_nat (digits_value 10 ds))"
    and "parseInt (CHR ''+'' # ds) = JNum (of_nat (digits_value 10 ds))"
    and "parseInt (CHR ''-'' # ds) = JNum (- of_nat (digits_value 10 ds))"
proof -
  from assms obtain c t where ds: "ds = c # t" and c: "is_digit 10 c"
    by (cases ds) (auto simp: all_digits_def)
  have ne: "ds \<noteq> []" using ds by simp
  note plain = is_digit_10_plain[OF c]
  have w: "dropWhile is_whitespace ds = ds" and sgn: "hd ds \<noteq> CHR ''-''" "hd ds \<noteq> CHR ''+''"
    using plain ds by simp_all
  show "parseInt ds = JNum (of_nat (digits_value 10 ds))"
    using ne
    by (simp add: parseInt_def Let_def w sgn all_digits_no_hex_prefix[OF assms]
        takeWhile_all_digits[OF assms])
  show "parseInt (CHR ''+'' # ds) = JNum (of_nat (digits_value 10 ds))"
    using ne
    by (simp add: parseInt_def Let_def is_whitespace_def all_digits_no_hex_prefix[OF assms]
        takeWhile_all_digits[OF assms])
  show "parseInt (CHR ''-'' # ds) = JNum (- of_nat (digits_value 10 ds))"
    using ne
    by (simp add: parseInt_def Let_def is_whitespace_def all_digits_no_hex_prefix[OF assms]
        takeWhile_all_digits[OF assms])
qed

lemma parseInt_valid_integer: "valid_integer str \<Longrightarrow> parseInt str \<noteq> JNaN"
  by (auto simp: valid_integer_def parseInt_digits split: list.splits if_splits)

text \<open>
  \<^verbatim>\<open>parseInt\<close> reads the digits a text starts with and ignores the rest: the id
  \<^verbatim>\<open>1abc\<close> is no valid integer, and the answer is product 1 with status 200, not 400.
\<close>

theorem getProductById_prefix_counterexample:
  "\<not> valid_integer ''1abc''
   \<and> getProductById widget_state (admin_request\<lparr>params_id := ''1abc''\<rparr>)
       = Inr (respond 200 (ProductWithImage widget ''iVBORw==''))"
  by (simp add: valid_integer_def all_digits_def is_digit_def digit_value_def
      getProductById_def parseInt_def is_whitespace_def digits_value_def
      widget_state_products widget_state_files readFileSync_def widget_def
      sextet1_def sextet2_def sextet3_def sextet4_def base64_char_def base64_alphabet_def)

text \<open>
  C5, as amended. \<open>getProductById\<close> answers 400 when \<^verbatim>\<open>parseInt\<close> of the id is
  \<open>NaN\<close>, and 404 when it is a number that is no key of the store. A valid integer never
  parses to \<open>NaN\<close>, so it is never answered 400. The identity endpoint, the users and
  the authorization header play no part in the answer.
\<close>

theorem getProductById_invalid_or_absent:
  "(parseInt (params_id req) = JNaN \<longrightarrow>
      getProductById s req = Inr (respond 400 (Message InvalidProductId)))
   \<and> (parseInt (params_id req) \<noteq> JNaN
        \<and> Map_get (products s) (parseInt (params_id req)) = None \<longrightarrow>
      getProductById s req = Inr (respond 404 (Message ProductNotFound)))
   \<and> (valid_integer (params_id req) \<longrightarrow> parseInt (params_id req) \<noteq> JNaN)
   \<and> handle e s (GET_products_id, req) = handle e' s (GET_products_id, req\<lparr>authorization := a\<rparr>)"
  by (simp add: getProductById_def parseInt_valid_integer)

theorem getProductById_invalid_or_absent_witness:
  "getProductById widget_state (admin_request\<lparr>params_id := ''abc''\<rparr>)
     = Inr (respond 400 (Message InvalidProductId))
   \<and> valid_integer ''2''
   \<and> getProductById widget_state (admin_request\<lparr>params_id := ''2''\<rparr>)
     = Inr (respond 404 (Message ProductNotFound))"
proof -
  have a: "parseInt (params_id (admin_request\<lparr>params_id := ''abc''\<rparr>)) = JNaN"
    by (simp add: parseInt_def is_whitespace_def is_digit_def digit_value_def)
  have b: "parseInt (params_id (admin_request\<lparr>params_id := ''2''\<rparr>)) = JNum 2"
    by (simp add: parseInt_def is_whitespace_def is_digit_def digit_value_def digits_value_def)
  have c: "valid_integer ''2''"
    by (simp add: valid_integer_def all_digits_def is_digit_def digit_value_def)
  from getProductById_invalid_or_absent[of "admin_request\<lparr>params_id := ''abc''\<rparr>" widget_state] a
    getProductById_invalid_or_absent[of "admin_request\<lparr>params_id := ''2''\<rparr>" widget_state] b c
  show ?thesis
    by (simp add: widget_state_products)
qed

section \<open>Adding a product and reading it back\<close>

declare decimal.simps [simp del]

lemma digit_value_char_of: "(d::nat) < 10 \<Longrightarrow> digit_value (char_of (48 + d)) = Some d"
  by (simp add: digit_value_def Let_def)

lemma is_digit_char_of: "(d::nat) < 10 \<Longrightarrow> is_digit 10 (char_of (48 + d))"
  by (simp add: is_digit_def digit_value_char_of)

lemma digits_value_snoc:
  "digits_value r (ds @ [c]) = digits_value r ds * r + (case digit_value c of None \<Rightarrow> 0 | Some d \<Rightarrow> d)"
  by (simp add: digits_value_def)

lemma decimal_digits: "all_digits 10 (decimal n) \<and> digits_value 10 (decimal n) = n"
proof (induction n rule: decimal.induct)
  case (1 n)
  show ?case
  proof (cases "n < 10")
    case True
    then show ?thesis
      by (simp add: decimal.simps[of n] all_digits_def is_digit_char_of digits_value_def
          digit_value_char_of)
  next
    case False
    have m: "n mod 10 < 10" by simp
    from False "1" have ih: "all_digits 10 (decimal (n div 10))"
      "digits_value 10 (decimal (n div 10)) = n div 10" by simp_all
    show ?thesis
      using False ih
      by (simp add: decimal.simps[of n] all_digits_def is_digit_char_of[OF m] digits_value_snoc
          digit_value_char_of[OF m])
  qed
qed

lemma parseInt_decimal: "parseInt (decimal n) = JNum (of_nat n)"
  using decimal_digits[of n] by (simp add: parseInt_digits(1))

text \<open>
  An upload of no bytes is an image that is there: the product is created with status
  201, and \<open>getProductById\<close> on its id returns it with the empty text as \<open>image\<close>.
\<close>

theorem addProduct_empty_image_counterexample:
  "admin_gate example_env (product_request ''Widget'' ''1700000000000.png'' []) = Inr Admin
   \<and> fst (handle example_env empty_state
        (POST_products, product_request ''Widget'' ''1700000000000.png'' []))
     = Inr (respond 201 (Product widget))
   \<and> getProductById
        (snd (handle example_env empty_state
          (POST_products, product_request ''Widget'' ''1700000000000.png'' [])))
        (admin_request\<lparr>params_id := ''1''\<rparr>)
     = Inr (respond 200 (ProductWithImage widget []))"
  by (simp add: product_request_admin product_request_fields addProduct_def upload_single_def
      empty_state_def Map_size_def uploads_path_def widget_def Let_def
      getProductById_def parseInt_def is_whitespace_def is_digit_def digit_value_def
      digits_value_def readFileSync_def)

text \<open>
  C3, as amended. When an admin calls \<open>addProduct\<close> with four truthy fields and an
  image, the answer is 201 with the new product: its four fields are the values of the
  request, its image path is the stored file under \<^verbatim>\<open>src/uploads/\<close> (the answer
  carries no image bytes), and it is in the store under its identifier. After the route
  has run, \<open>getProductById\<close> on the decimal digits of that identifier answers 200 with
  the same product and the Base64 text of the uploaded bytes; that text decodes to the
  uploaded bytes, and it is empty exactly when the upload is.
\<close>

theorem addProduct_stores_product:
  assumes "admin_gate e req = Inr Admin"
    and "truthy (body req ''name'')" and "truthy (body req ''description'')"
    and "truthy (body req ''price'')" and "truthy (body req ''quantity'')"
    and "file' req = Some f"
  shows "\<exists>p. addProduct e s req
            = (respond 201 (Product p), s\<lparr>products := Map_set (products s) (JNum (id' p)) p\<rparr>)
     \<and> handle e s (POST_products, req)
            = (Inr (respond 201 (Product p)),
               (upload_single s req)\<lparr>products := Map_set (products s) (JNum (id' p)) p\<rparr>)
     \<and> name p = body req ''name'' \<and> description p = body req ''description''
     \<and> price p = body req ''price'' \<and> quantity p = body req ''quantity''
     \<and> imageUrl p = ''src/uploads/'' @ filename f
     \<and> id' p = of_nat (Suc (Map_size (products s)))
     \<and> Map_get (products (snd (handle e s (POST_products, req)))) (JNum (id' p)) = Some p
     \<and> getProductById (snd (handle e s (POST_products, req)))
          (r\<lparr>params_id := decimal (Suc (Map_size (products s)))\<rparr>)
         = Inr (respond 200 (ProductWithImage p (base64 (content f))))
     \<and> base64_decode (base64 (content f)) = Some (content f)
     \<and> (base64 (content f) = [] \<longleftrightarrow> content f = [])"
proof -
  define k :: rat where "k = of_nat (Map_size (products s)) + 1"
  define p where "p = \<lparr>id' = k, name = body req ''name'',
     description = body req ''description'', price = body req ''price'',
     quantity = body req ''quantity'', imageUrl = uploads_path (filename f)\<rparr>"
  have pk: "parseInt (decimal (Suc (Map_size (products s)))) = JNum k"
    by (simp add: k_def parseInt_decimal)
  have idp: "id' p = k" by (simp add: p_def)
  have a: "addProduct e s' req
      = (respond 201 (Product p), s'\<lparr>products := Map_set (products s') (JNum k) p\<rparr>)"
    if "products s' = products s" for s'
    using assms that by (simp add: addProduct_def Let_def p_def k_def)
  have u: "products (upload_single s req) = products s"
    by (simp add: upload_single_def split: option.splits)
  have h: "handle e s (POST_products, req)
      = (Inr (respond 201 (Product p)),
         (upload_single s req)\<lparr>products := Map_set (products s) (JNum k) p\<rparr>)"
    by (simp add: a[OF u] u)
  have fl: "files (upload_single s req) (imageUrl p) = Some (content f)"
    using assms(6) by (simp add: upload_single_def p_def)
  have g: "getProductById (snd (handle e s (POST_products, req)))
          (r\<lparr>params_id := decimal (Suc (Map_size (products s)))\<rparr>)
         = Inr (respond 200 (ProductWithImage p (base64 (content f))))"
    unfolding h
    by (simp add: getProductById_def pk Map_get_set_same readFileSync_def fl
        del: of_nat_Suc of_nat_add)
  have fields: "name p = body req ''name''" "description p = body req ''description''"
    "price p = body req ''price''" "quantity p = body req ''quantity''"
    "imageUrl p = ''src/uploads/'' @ filename f" "id' p = of_nat (Suc (Map_size (products s)))"
    by (simp_all add: p_def uploads_path_def k_def)
  show ?thesis
    apply (rule exI[of _ p])
    using a[of s] h g fields
    by (simp add: idp Map_get_set_same base64_decode_encode base64_empty_iff
        del: of_nat_Suc of_nat_add)
qed

theorem addProduct_stores_product_witness:
  "fst (handle example_env empty_state (POST_products, widget_request))
     = Inr (respond 201 (Product widget))
   \<and> getProductById (snd (handle example_env empty_state (POST_products, widget_request)))
        (admin_request\<lparr>params_id := ''1''\<rparr>)
     = Inr (respond 200 (ProductWithImage widget ''iVBORw==''))
   \<and> base64_decode ''iVBORw=='' = Some [0x89, 0x50, 0x4E, 0x47]"
proof -
  let ?f = "\<lparr>filename = ''1700000000000.png'', content = [0x89, 0x50, 0x4E, 0x47 :: byte]\<rparr>"
  have gate: "admin_gate example_env widget_request = Inr Admin"
    by (simp add: widget_request_def product_request_admin)
  have t: "truthy (body widget_request ''name'')" "truthy (body widget_request ''description'')"
    "truthy (body widget_request ''price'')" "truthy (body widget_request ''quantity'')"
    by (simp_all add: widget_request_def product_request_fields)
  have f: "file' widget_request = Some ?f"
    by (simp add: widget_request_def product_request_fields)
  have c: "char_of (49::nat) = CHR ''1''"
    by code_simp
  have d: "decimal (Suc (Map_size (products empty_state))) = ''1''"
    by (simp add: empty_state_def Map_size_def decimal.simps c)
  have b: "base64 (content ?f) = ''iVBORw==''"
    by (simp add: sextet1_def sextet2_def sextet3_def sextet4_def base64_char_def
        base64_alphabet_def)
  from addProduct_stores_product[OF gate t f, of empty_state admin_request]
  obtain p where p:
    "handle example_env empty_state (POST_products, widget_request)
       = (Inr (respond 201 (Product p)),
          (upload_single empty_state widget_request)
            \<lparr>products := Map_set (products empty_state) (JNum (id' p)) p\<rparr>)"
    "name p = body widget_request ''name''"
    "description p = body widget_request ''description''"
    "price p = body widget_request ''price''"
    "quantity p = body widget_request ''quantity''"
    "imageUrl p = ''src/uploads/'' @ filename ?f"
    "id' p = of_nat (Suc (Map_size (products empty_state)))"
    "getProductById (snd (handle example_env empty_state (POST_products, widget_request)))
          (admin_request\<lparr>params_id := decimal (Suc (Map_size (products empty_state)))\<rparr>)
         = Inr (respond 200 (ProductWithImage p (base64 (content ?f))))"
    "base64_decode (base64 (content ?f)) = Some (content ?f)"
    by blast
  have "p = widget"
    using p(2-7)
    by (simp add: widget_def widget_request_def product_request_fields empty_state_def Map_size_def)
  with p(1,8,9) show ?thesis
    unfolding d b by simp
qed

end
